theory Spec2Isabelle
  imports Main "HOL-Library.AList" "HOL-Library.Multiset" "HOL-Library.Word"
begin

section \<open>Data model of src/domain/transaction.ts\<close>

text \<open>
  Amounts are JavaScript numbers (IEEE-754 doubles) that hold integers. In
  \<open>computeTxDetailsExtended\<close> they are modelled as \<open>int\<close> with exact addition, which agrees
  with the source as long as every amount and every running total stays in the range of
  exactly representable integers (magnitude below \<open>2 ^ 53\<close>). In \<open>computeBalances\<close>, where
  the order of the additions is at stake, the addition is the addition of doubles.
  A \<open>Record<string, number>\<close> is an association list with distinct keys in insertion
  order: \<open>r[k]\<close> is \<open>map_of r k\<close>, \<open>r[k] = v\<close> is \<open>AList.update k v r\<close>,
  \<open>delete r[k]\<close> is \<open>AList.delete k r\<close> and \<open>Object.keys(r).length\<close> is \<open>length r\<close>.
  The keys are asset identifiers (hex strings), which are ordinary property names.
\<close>

type_synonym bytes = "8 word list"

type_synonym Record_number = "(string \<times> int) list"

type_synonym TxFlow = Record_number

record UnblindingData =
  ud_value :: int
  ud_asset :: string
  assetBlindingFactor :: string
  valueBlindingFactor :: string

record UnblindedOutput =
  uo_txID :: string
  vout :: nat
  blindingData :: "UnblindingData option"

text \<open>\<open>x || 0\<close> for \<open>x\<close> a number or \<open>undefined\<close>: zero is the only falsy integer.\<close>

definition orZero :: "int option \<Rightarrow> int" where
  "orZero x = (case x of None \<Rightarrow> 0 | Some n \<Rightarrow> n)"

subsection \<open>Addition of JavaScript numbers that hold integers\<close>

text \<open>
  An integer of magnitude below \<open>2 ^ 53\<close> is a double. Above, the doubles are the multiples
  of \<open>ulp x\<close>, the power of two that leaves 53 significant bits; \<open>roundToDouble x\<close> is the
  double nearest to the integer \<open>x\<close>, ties going to the even significand, and the sum of
  two doubles is their exact sum rounded (magnitudes stay far below \<open>2 ^ 1024\<close>, so no sum
  is infinite).
\<close>

function ulp :: "int \<Rightarrow> int" where
  "ulp x = (if x < 2 ^ 53 then 1 else 2 * ulp (x div 2))"
  by pat_completeness auto
termination
  by (relation "measure nat") auto

declare ulp.simps [simp del]

definition roundToDouble :: "int \<Rightarrow> int" where
  "roundToDouble x =
     (if \<bar>x\<bar> < 2 ^ 53 then x
      else
        (let u = ulp \<bar>x\<bar>;
             q = \<bar>x\<bar> div u;
             r = \<bar>x\<bar> mod u;
             m = (if 2 * r < u \<or> (2 * r = u \<and> even q) then q else q + 1)
         in sgn x * (m * u)))"

definition jsAdd :: "int \<Rightarrow> int \<Rightarrow> int" where
  "jsAdd a b = roundToDouble (a + b)"

subsection \<open>computeBalances (lines 49-57)\<close>

text \<open>
  \<open>balances\<close> starts as \<open>{}\<close>. For an asset identifier that is a hex string,
  \<open>balances[asset]\<close> is the record's own entry or \<open>undefined\<close>: no property that \<open>{}\<close>
  inherits has a hex name. Other keys are outside this model.
\<close>

fun balances_loop :: "UnblindedOutput list \<Rightarrow> Record_number \<Rightarrow> Record_number" where
  "balances_loop [] balances = balances"
| "balances_loop (utxo # utxos) balances =
     (case blindingData utxo of
        None \<Rightarrow> balances_loop utxos balances
      | Some bd \<Rightarrow>
          balances_loop utxos
            (AList.update (ud_asset bd)
               (jsAdd (orZero (map_of balances (ud_asset bd))) (ud_value bd)) balances))"

definition computeBalances :: "UnblindedOutput list \<Rightarrow> Record_number" where
  "computeBalances utxos = balances_loop utxos []"

text \<open>What one output adds to the balance of asset \<open>a\<close>, if anything.\<close>

definition credit :: "string \<Rightarrow> UnblindedOutput \<Rightarrow> int option" where
  "credit a utxo =
     (case blindingData utxo of
        None \<Rightarrow> None
      | Some bd \<Rightarrow> if ud_asset bd = a then Some (ud_value bd) else None)"

text \<open>The sum of the absolute amounts of asset \<open>a\<close> in a list of outputs.\<close>

definition assetVolume :: "string \<Rightarrow> UnblindedOutput list \<Rightarrow> int" where
  "assetVolume a utxos = sum_list (map (\<lambda>u. \<bar>orZero (credit a u)\<bar>) utxos)"

text \<open>Every asset identifier of the list is a hex string.\<close>

definition isHex :: "string \<Rightarrow> bool" where
  "isHex s = list_all (\<lambda>c. c \<in> set ''0123456789abcdefABCDEF'') s"

definition hexAssets :: "UnblindedOutput list \<Rightarrow> bool" where
  "hexAssets utxos =
     list_all (\<lambda>u. case blindingData u of None \<Rightarrow> True | Some bd \<Rightarrow> isHex (ud_asset bd)) utxos"

subsection \<open>Transactions, decoded values and errors\<close>

text \<open>
  A parsed transaction as the code reads it: \<open>transaction.outs[i].script\<close>, \<open>.value\<close>,
  \<open>.asset\<close> are byte buffers, \<open>transaction.ins[i].hash\<close> is a buffer and \<open>.index\<close> a number.
\<close>

record Output =
  script :: bytes
  out_value :: bytes
  out_asset :: bytes

record Input =
  hash :: bytes
  index :: nat

record Transaction =
  getId :: string
  outs :: "Output list"
  ins :: "Input list"

text \<open>
  The object returned by \<open>ElementsValue.fromBytes\<close>, with the two getters the code reads.
  \<open>number\<close> is \<open>None\<close> when the getter throws.
\<close>

record ElementsValue =
  isConfidential :: bool
  number :: "nat option"

text \<open>An entry of the array returned by \<open>script.decompile\<close>: an opcode number or pushed data.\<close>

datatype chunk = Opcode nat | Push bytes

definition OP_RETURN :: nat where
  "OP_RETURN = 106"

datatype NetworkString = Liquid | Testnet | Regtest

text \<open>
  The functions of the library liquidjs-lib that the code calls are parameters of the model.
  A result \<open>None\<close> of \<open>Transaction_fromHex\<close>, \<open>ElementsValue_fromBytes\<close> and
  \<open>AssetHash_hex\<close> (which stands for \<open>AssetHash.fromBytes(b).hex\<close>) means that the library
  throws; \<open>script_decompile\<close> returns \<open>None\<close> for \<open>null\<close>; \<open>assetHash n\<close> is
  \<open>networks[n].assetHash\<close>.
\<close>

record liquidjs =
  Transaction_fromHex :: "string \<Rightarrow> Transaction option"
  ElementsValue_fromBytes :: "bytes \<Rightarrow> ElementsValue option"
  AssetHash_hex :: "bytes \<Rightarrow> string option"
  script_decompile :: "bytes \<Rightarrow> chunk list option"
  assetHash :: "NetworkString \<Rightarrow> string"

text \<open>
  \<open>MissingTransactionData\<close> is \<open>Error('tx hex not found')\<close>, \<open>NetworkNotConfigured\<close> is
  \<open>Error('network not found')\<close>; \<open>LibraryError\<close> is an exception thrown by liquidjs-lib and
  \<open>CollaboratorError\<close> the rejection of a promise awaited on a repository or chain source.
  Both propagate to the caller, since the function catches nothing.
\<close>

datatype error = MissingTransactionData | NetworkNotConfigured | LibraryError | CollaboratorError

datatype 'a promise = Resolved 'a | Rejected

record TxDetails =
  height :: "int option"
  hex :: "string option"

record BlockHeader =
  bh_height :: int
  bh_payload :: string

record TxDetailsExtended = TxDetails +
  txID :: string
  txFlow :: TxFlow
  feeAmount :: int
  blockHeader :: "BlockHeader option"

subsection \<open>Repositories and chain source\<close>

text \<open>
  The interfaces imported from \<open>./repository\<close> and \<open>./chainsource\<close>. The lookups of the
  wallet and application repositories do not change state; each either resolves (to a value
  or to \<open>undefined\<close>, here \<open>None\<close>) or rejects.
\<close>

record WalletRepository =
  getOutputBlindingData :: "string \<Rightarrow> nat \<Rightarrow> UnblindedOutput option promise"
  getWitnessUtxo :: "string \<Rightarrow> nat \<Rightarrow> Output option promise"

record ChainSource =
  fetchBlockHeader :: "int \<Rightarrow> BlockHeader option promise"
  close :: "unit promise"

record AppRepository =
  getNetwork :: "NetworkString option promise"
  getChainSource :: "NetworkString \<Rightarrow> ChainSource option promise"

text \<open>
  The state the function changes: the persistent block-header store, and the trace of the
  calls made on chain sources and on the store, oldest first.
\<close>

datatype event =
  Acquired NetworkString
| Fetched int
| Stored NetworkString BlockHeader
| Closed

record world =
  blockHeaders :: "NetworkString \<times> int \<Rightarrow> BlockHeader option"
  trace :: "event list"

definition emit :: "event \<Rightarrow> world \<Rightarrow> world" where
  "emit e w = w\<lparr>trace := trace w @ [e]\<rparr>"

text \<open>
  Modelled from the spec: the implementation of \<open>BlockheadersRepository\<close> is not in the
  source file. The spec describes a persistent store of block headers keyed by
  \<open>(network, height)\<close>; \<open>setBlockHeader\<close> receives only the network and the header, so the
  height of the key is the header's own. Storage failures are not modelled.
\<close>

definition getBlockHeader :: "world \<Rightarrow> NetworkString \<Rightarrow> int \<Rightarrow> BlockHeader option" where
  "getBlockHeader w network h = blockHeaders w (network, h)"

definition setBlockHeader :: "world \<Rightarrow> NetworkString \<Rightarrow> BlockHeader \<Rightarrow> world" where
  "setBlockHeader w network bh =
     emit (Stored network bh) (w\<lparr>blockHeaders := (blockHeaders w)((network, bh_height bh) \<mapsto> bh)\<rparr>)"

subsection \<open>Buffer.toString('hex')\<close>

definition hexDigit :: "nat \<Rightarrow> char" where
  "hexDigit n = ''0123456789abcdef'' ! n"

definition toHex :: "bytes \<Rightarrow> string" where
  "toHex bs = concat (map (\<lambda>b. [hexDigit (unat b div 16), hexDigit (unat b mod 16)]) bs)"

subsection \<open>computeTxDetailsExtended: the output pass (lines 117-138)\<close>

text \<open>The state of the pass is the pair \<open>(feeAmount, txFlow)\<close>.\<close>

definition isBurn :: "liquidjs \<Rightarrow> bytes \<Rightarrow> bool" where
  "isBurn L s =
     (case script_decompile L s of None \<Rightarrow> False | Some chunks \<Rightarrow> Opcode OP_RETURN \<in> set chunks)"

definition output_step ::
  "liquidjs \<Rightarrow> WalletRepository \<Rightarrow> string \<Rightarrow> nat \<Rightarrow> Output \<Rightarrow> int \<times> TxFlow \<Rightarrow> error + int \<times> TxFlow" where
  "output_step L W txid outIndex output st =
     (case ElementsValue_fromBytes L (out_value output) of
        None \<Rightarrow> Inl LibraryError
      | Some elementsValue \<Rightarrow>
          if length (script output) = 0 then
            (case number elementsValue of
               None \<Rightarrow> Inl LibraryError
             | Some n \<Rightarrow> Inr (int n, snd st))
          else if isConfidential elementsValue then
            (case getOutputBlindingData W txid outIndex of
               Rejected \<Rightarrow> Inl CollaboratorError
             | Resolved None \<Rightarrow> Inr st
             | Resolved (Some data) \<Rightarrow>
                 (case blindingData data of
                    None \<Rightarrow> Inr st
                  | Some bd \<Rightarrow>
                      Inr (fst st,
                           AList.update (ud_asset bd)
                             (orZero (map_of (snd st) (ud_asset bd)) + ud_value bd) (snd st))))
          else if isBurn L (script output) then Inr st
          else
            (case AssetHash_hex L (out_asset output) of
               None \<Rightarrow> Inl LibraryError
             | Some asset \<Rightarrow>
                 (case number elementsValue of
                    None \<Rightarrow> Inl LibraryError
                  | Some n \<Rightarrow>
                      Inr (fst st,
                           AList.update asset (orZero (map_of (snd st) asset) + int n) (snd st)))))"

fun outputs_loop ::
  "liquidjs \<Rightarrow> WalletRepository \<Rightarrow> string \<Rightarrow> nat \<Rightarrow> Output list \<Rightarrow> int \<times> TxFlow \<Rightarrow> error + int \<times> TxFlow" where
  "outputs_loop L W txid outIndex [] st = Inr st"
| "outputs_loop L W txid outIndex (output # rest) st =
     (case output_step L W txid outIndex output st of
        Inl e \<Rightarrow> Inl e
      | Inr st' \<Rightarrow> outputs_loop L W txid (Suc outIndex) rest st')"

subsection \<open>The input pass (lines 140-157)\<close>

definition input_step :: "liquidjs \<Rightarrow> WalletRepository \<Rightarrow> Input \<Rightarrow> TxFlow \<Rightarrow> error + TxFlow" where
  "input_step L W input flow =
     (let inputTxID = toHex (rev (hash input)) in
      case getWitnessUtxo W inputTxID (index input) of
        Rejected \<Rightarrow> Inl CollaboratorError
      | Resolved None \<Rightarrow> Inr flow
      | Resolved (Some output) \<Rightarrow>
          (case ElementsValue_fromBytes L (out_value output) of
             None \<Rightarrow> Inl LibraryError
           | Some elementsValue \<Rightarrow>
               if isConfidential elementsValue then
                 (case getOutputBlindingData W inputTxID (index input) of
                    Rejected \<Rightarrow> Inl CollaboratorError
                  | Resolved None \<Rightarrow> Inr flow
                  | Resolved (Some data) \<Rightarrow>
                      (case blindingData data of
                         None \<Rightarrow> Inr flow
                       | Some bd \<Rightarrow>
                           Inr (AList.update (ud_asset bd)
                                  (orZero (map_of flow (ud_asset bd)) - ud_value bd) flow)))
               else
                 (case AssetHash_hex L (out_asset output) of
                    None \<Rightarrow> Inl LibraryError
                  | Some asset \<Rightarrow>
                      (case number elementsValue of
                         None \<Rightarrow> Inl LibraryError
                       | Some n \<Rightarrow>
                           Inr (AList.update asset (orZero (map_of flow asset) - int n) flow)))))"

fun inputs_loop :: "liquidjs \<Rightarrow> WalletRepository \<Rightarrow> Input list \<Rightarrow> TxFlow \<Rightarrow> error + TxFlow" where
  "inputs_loop L W [] flow = Inr flow"
| "inputs_loop L W (input # rest) flow =
     (case input_step L W input flow of
        Inl e \<Rightarrow> Inl e
      | Inr flow' \<Rightarrow> inputs_loop L W rest flow')"

text \<open>Lines 113-157: both passes, from \<open>feeAmount = 0\<close> and the empty flow.\<close>

definition flowPasses :: "liquidjs \<Rightarrow> WalletRepository \<Rightarrow> Transaction \<Rightarrow> error + int \<times> TxFlow" where
  "flowPasses L W transaction =
     (case outputs_loop L W (getId transaction) 0 (outs transaction) (0, []) of
        Inl e \<Rightarrow> Inl e
      | Inr st \<Rightarrow>
          (case inputs_loop L W (ins transaction) (snd st) of
             Inl e \<Rightarrow> Inl e
           | Inr flow \<Rightarrow> Inr (fst st, flow)))"

subsection \<open>The block header of a confirmed transaction (lines 163-171)\<close>

text \<open>
  \<open>NoChainSource\<close> is the early return of line 167; \<open>Header b\<close> is the value of the variable
  \<open>blockHeader\<close> at line 172.
\<close>

datatype lookup = NoChainSource | Header "BlockHeader option"

definition blockHeaderLookup ::
  "AppRepository \<Rightarrow> world \<Rightarrow> NetworkString \<Rightarrow> int \<Rightarrow> (error + lookup) \<times> world" where
  "blockHeaderLookup A w network h =
     (case getBlockHeader w network h of
        Some cached \<Rightarrow> (Inr (Header (Some cached)), w)
      | None \<Rightarrow>
          (case getChainSource A network of
             Rejected \<Rightarrow> (Inl CollaboratorError, w)
           | Resolved None \<Rightarrow> (Inr NoChainSource, w)
           | Resolved (Some chainSource) \<Rightarrow>
               (let w1 = emit (Fetched h) (emit (Acquired network) w) in
                case fetchBlockHeader chainSource h of
                  Rejected \<Rightarrow> (Inl CollaboratorError, w1)
                | Resolved fetched \<Rightarrow>
                    (let w2 = (case fetched of None \<Rightarrow> w1 | Some bh \<Rightarrow> setBlockHeader w1 network bh);
                         w3 = emit Closed w2
                     in case close chainSource of
                          Rejected \<Rightarrow> (Inl CollaboratorError, w3)
                        | Resolved u \<Rightarrow> (Inr (Header fetched), w3)))))"

subsection \<open>The self-transfer correction (lines 173-181)\<close>

text \<open>
  When the flow has no entry for the native asset, \<open>undefined + feeAmount\<close> is \<open>NaN\<close> and
  the test of line 174 is false.
\<close>

definition selfTransferCorrection :: "string \<Rightarrow> int \<Rightarrow> TxFlow \<Rightarrow> TxFlow" where
  "selfTransferCorrection native fee flow =
     (case map_of flow native of
        None \<Rightarrow> flow
      | Some v \<Rightarrow>
          if v + fee = 0 then
            (if length flow = 1 then AList.update native 0 flow else AList.delete native flow)
          else flow)"

subsection \<open>computeTxDetailsExtended (lines 103-191)\<close>

definition extended ::
  "TxDetails \<Rightarrow> string \<Rightarrow> TxFlow \<Rightarrow> int \<Rightarrow> BlockHeader option \<Rightarrow> TxDetailsExtended" where
  "extended details tid flow fee bh =
     \<lparr>height = height details, hex = hex details,
      txID = tid, txFlow = flow, feeAmount = fee, blockHeader = bh\<rparr>"

text \<open>Lines 159-189, once both passes have produced \<open>feeAmount\<close> and \<open>txFlow\<close>.\<close>

definition enrich ::
  "liquidjs \<Rightarrow> AppRepository \<Rightarrow> world \<Rightarrow> TxDetails \<Rightarrow> string \<Rightarrow> int \<Rightarrow> TxFlow \<Rightarrow>
   (error + TxDetailsExtended) \<times> world" where
  "enrich L A w details tid fee flow =
     (case height details of
        None \<Rightarrow> (Inr (extended details tid flow fee None), w)
      | Some h \<Rightarrow>
          if h = - 1 then (Inr (extended details tid flow fee None), w)
          else
            (case getNetwork A of
               Rejected \<Rightarrow> (Inl CollaboratorError, w)
             | Resolved None \<Rightarrow> (Inl NetworkNotConfigured, w)
             | Resolved (Some network) \<Rightarrow>
                 (case blockHeaderLookup A w network h of
                    (Inl e, w') \<Rightarrow> (Inl e, w')
                  | (Inr NoChainSource, w') \<Rightarrow> (Inr (extended details tid flow fee None), w')
                  | (Inr (Header bh), w') \<Rightarrow>
                      (Inr (extended details tid
                              (selfTransferCorrection (assetHash L network) fee flow) fee bh), w'))))"

text \<open>
  \<open>!details.hex\<close> is true when the field is \<open>undefined\<close> and when it is the empty string.
\<close>

definition computeTxDetailsExtended ::
  "liquidjs \<Rightarrow> AppRepository \<Rightarrow> WalletRepository \<Rightarrow> world \<Rightarrow> TxDetails \<Rightarrow>
   (error + TxDetailsExtended) \<times> world" where
  "computeTxDetailsExtended L A W w details =
     (case hex details of
        None \<Rightarrow> (Inl MissingTransactionData, w)
      | Some h \<Rightarrow>
          if h = [] then (Inl MissingTransactionData, w)
          else
            (case Transaction_fromHex L h of
               None \<Rightarrow> (Inl LibraryError, w)
             | Some transaction \<Rightarrow>
                 (case flowPasses L W transaction of
                    Inl e \<Rightarrow> (Inl e, w)
                  | Inr st \<Rightarrow> enrich L A w details (getId transaction) (fst st) (snd st))))"


subsection \<open>Observations on traces and lookups\<close>

fun isFetched :: "event \<Rightarrow> bool" where
  "isFetched (Fetched h) = True"
| "isFetched e = False"

definition fetches :: "world \<Rightarrow> nat" where
  "fetches w = length (filter isFetched (trace w))"

text \<open>The blinding-data lookup resolved, and gave no secret (line 128 and line 149).\<close>

definition noSecret :: "UnblindedOutput option promise \<Rightarrow> bool" where
  "noSecret p =
     (case p of
        Rejected \<Rightarrow> False
      | Resolved None \<Rightarrow> True
      | Resolved (Some data) \<Rightarrow> blindingData data = None)"

text \<open>A fee output whose value the library reads.\<close>

definition feeOutput :: "liquidjs \<Rightarrow> Output \<Rightarrow> bool" where
  "feeOutput L output =
     (case ElementsValue_fromBytes L (out_value output) of
        None \<Rightarrow> False
      | Some ev \<Rightarrow> script output = [] \<and> number ev \<noteq> None)"

text \<open>A confidential output at index \<open>i\<close> with no stored secret.\<close>

definition blindOutput :: "liquidjs \<Rightarrow> WalletRepository \<Rightarrow> string \<Rightarrow> nat \<Rightarrow> Output \<Rightarrow> bool" where
  "blindOutput L W txid i output =
     (case ElementsValue_fromBytes L (out_value output) of
        None \<Rightarrow> False
      | Some ev \<Rightarrow>
          script output \<noteq> [] \<and> isConfidential ev \<and> noSecret (getOutputBlindingData W txid i))"

fun unknownOutputs :: "liquidjs \<Rightarrow> WalletRepository \<Rightarrow> string \<Rightarrow> nat \<Rightarrow> Output list \<Rightarrow> bool" where
  "unknownOutputs L W txid i [] = True"
| "unknownOutputs L W txid i (output # rest) =
     ((feeOutput L output \<or> blindOutput L W txid i output) \<and> unknownOutputs L W txid (Suc i) rest)"

text \<open>
  An input whose spent output is not in the witness-output lookup, or is confidential with
  no stored secret.
\<close>

definition unknownInput :: "liquidjs \<Rightarrow> WalletRepository \<Rightarrow> Input \<Rightarrow> bool" where
  "unknownInput L W input =
     (case getWitnessUtxo W (toHex (rev (hash input))) (index input) of
        Rejected \<Rightarrow> False
      | Resolved None \<Rightarrow> True
      | Resolved (Some output) \<Rightarrow>
          (case ElementsValue_fromBytes L (out_value output) of
             None \<Rightarrow> False
           | Some ev \<Rightarrow>
               isConfidential ev \<and>
               noSecret (getOutputBlindingData W (toHex (rev (hash input))) (index input))))"

subsection \<open>Test doubles and fixtures\<close>

text \<open>
  A small stand-in for liquidjs-lib, used only to run the model on concrete transactions:
  a value or asset buffer is a prefix byte followed by the payload (prefix 1: explicit,
  big-endian amount or asset hash; prefix 8 or 9: confidential value); a script is a
  sequence of one-byte opcodes; the parser returns the transaction it is given.
\<close>

definition be_nat :: "bytes \<Rightarrow> nat" where
  "be_nat bs = foldl (\<lambda>a b. a * 256 + unat b) 0 bs"

definition testValue :: "bytes \<Rightarrow> ElementsValue option" where
  "testValue bs =
     (case bs of
        [] \<Rightarrow> None
      | p # rest \<Rightarrow>
          if p = 1 then Some \<lparr>isConfidential = False, number = Some (be_nat rest)\<rparr>
          else if p = 8 \<or> p = 9 then Some \<lparr>isConfidential = True, number = None\<rparr>
          else None)"

definition testAsset :: "bytes \<Rightarrow> string option" where
  "testAsset bs =
     (case bs of
        [] \<Rightarrow> None
      | p # rest \<Rightarrow> if p = 1 then Some (toHex (rev rest)) else None)"

definition testNative :: "NetworkString \<Rightarrow> string" where
  "testNative n = (case n of Liquid \<Rightarrow> ''6f'' | Testnet \<Rightarrow> ''14'' | Regtest \<Rightarrow> ''5a'')"

definition testLib :: "Transaction \<Rightarrow> liquidjs" where
  "testLib tx =
     \<lparr>Transaction_fromHex = (\<lambda>h. Some tx),
      ElementsValue_fromBytes = testValue,
      AssetHash_hex = testAsset,
      script_decompile = (\<lambda>s. Some (map (\<lambda>b. Opcode (unat b)) s)),
      assetHash = testNative\<rparr>"

definition feeOut5 :: Output where
  "feeOut5 = \<lparr>script = [], out_value = [1, 5], out_asset = [1, 0x6f]\<rparr>"

definition payOut100 :: Output where
  "payOut100 = \<lparr>script = [0x51], out_value = [1, 100], out_asset = [1, 0x6f]\<rparr>"

definition assetOut7 :: Output where
  "assetOut7 = \<lparr>script = [0x51], out_value = [1, 7], out_asset = [1, 0xaa]\<rparr>"

definition coin105 :: Output where
  "coin105 = \<lparr>script = [0x51], out_value = [1, 105], out_asset = [1, 0x6f]\<rparr>"

definition blindOut :: Output where
  "blindOut = \<lparr>script = [0x51], out_value = [8, 0], out_asset = [0x0a, 0]\<rparr>"



definition spendCoin :: Input where
  "spendCoin = \<lparr>hash = [0xaa], index = 0\<rparr>"

definition selfTx :: Transaction where
  "selfTx = \<lparr>getId = ''1d'', outs = [feeOut5, payOut100], ins = [spendCoin]\<rparr>"

definition swapTx :: Transaction where
  "swapTx = \<lparr>getId = ''2d'', outs = [feeOut5, payOut100, assetOut7], ins = [spendCoin]\<rparr>"

definition blindTx :: Transaction where
  "blindTx = \<lparr>getId = ''3d'', outs = [blindOut, feeOut5], ins = [spendCoin]\<rparr>"

definition testWallet :: WalletRepository where
  "testWallet =
     \<lparr>getOutputBlindingData = (\<lambda>t i. Resolved None),
      getWitnessUtxo = (\<lambda>t i. if t = ''aa'' \<and> i = 0 then Resolved (Some coin105) else Resolved None)\<rparr>"

definition emptyWallet :: WalletRepository where
  "emptyWallet =
     \<lparr>getOutputBlindingData = (\<lambda>t i. Resolved None),
      getWitnessUtxo = (\<lambda>t i. Resolved None)\<rparr>"

definition secret7 :: UnblindedOutput where
  "secret7 =
     \<lparr>uo_txID = ''4d'', vout = 0,
      blindingData = Some \<lparr>ud_value = 7, ud_asset = ''aa'',
                           assetBlindingFactor = ''00'', valueBlindingFactor = ''00''\<rparr>\<rparr>"


definition goodSource :: ChainSource where
  "goodSource =
     \<lparr>fetchBlockHeader = (\<lambda>h. Resolved (Some \<lparr>bh_height = h, bh_payload = ''hdr''\<rparr>)),
      close = Resolved ()\<rparr>"

definition failingSource :: ChainSource where
  "failingSource = \<lparr>fetchBlockHeader = (\<lambda>h. Rejected), close = Resolved ()\<rparr>"

definition appNoNetwork :: AppRepository where
  "appNoNetwork = \<lparr>getNetwork = Resolved None, getChainSource = (\<lambda>n. Resolved None)\<rparr>"

definition appNoChain :: AppRepository where
  "appNoChain = \<lparr>getNetwork = Resolved (Some Liquid), getChainSource = (\<lambda>n. Resolved None)\<rparr>"

definition appWith :: "ChainSource \<Rightarrow> AppRepository" where
  "appWith cs = \<lparr>getNetwork = Resolved (Some Liquid), getChainSource = (\<lambda>n. Resolved (Some cs))\<rparr>"

definition emptyWorld :: world where
  "emptyWorld = \<lparr>blockHeaders = (\<lambda>k. None), trace = []\<rparr>"

definition unconfirmed :: TxDetails where
  "unconfirmed = \<lparr>height = None, hex = Some ''00''\<rparr>"

definition confirmed :: TxDetails where
  "confirmed = \<lparr>height = Some 10, hex = Some ''00''\<rparr>"


definition secret3 :: UnblindedOutput where
  "secret3 =
     \<lparr>uo_txID = ''5d'', vout = 1,
      blindingData = Some \<lparr>ud_value = 3, ud_asset = ''aa'',
                           assetBlindingFactor = ''00'', valueBlindingFactor = ''00''\<rparr>\<rparr>"

definition unknownCoin :: UnblindedOutput where
  "unknownCoin = \<lparr>uo_txID = ''6d'', vout = 2, blindingData = None\<rparr>"

definition coin :: "nat \<Rightarrow> int \<Rightarrow> UnblindedOutput" where
  "coin n v =
     \<lparr>uo_txID = ''7d'', vout = n,
      blindingData = Some \<lparr>ud_value = v, ud_asset = ''aa'',
                           assetBlindingFactor = ''00'', valueBlindingFactor = ''00''\<rparr>\<rparr>"

definition largeCoins :: "UnblindedOutput list" where
  "largeCoins =
     [coin 0 2100000000000000, coin 1 2100000000000000, coin 2 2100000000000000,
      coin 3 2100000000000000, coin 4 2100000000000000, coin 5 1, coin 6 1]"

subsection \<open>Stages reached by a call\<close>

text \<open>The record has a non-empty hex, the library parses it and both passes complete.\<close>

definition passesComplete :: "liquidjs \<Rightarrow> WalletRepository \<Rightarrow> TxDetails \<Rightarrow> bool" where
  "passesComplete L W details =
     (case hex details of
        None \<Rightarrow> False
      | Some h \<Rightarrow>
          h \<noteq> [] \<and>
          (case Transaction_fromHex L h of
             None \<Rightarrow> False
           | Some transaction \<Rightarrow>
               (case flowPasses L W transaction of Inl e \<Rightarrow> False | Inr st \<Rightarrow> True)))"

text \<open>The test of line 159 fails: the height is defined and is not -1.\<close>

definition heightKnown :: "TxDetails \<Rightarrow> bool" where
  "heightKnown details = (case height details of None \<Rightarrow> False | Some h \<Rightarrow> h \<noteq> - 1)"

subsection \<open>Further fixtures\<close>

definition header10 :: BlockHeader where
  "header10 = \<lparr>bh_height = 10, bh_payload = ''hdr''\<rparr>"

definition cachedWorld :: world where
  "cachedWorld =
     \<lparr>blockHeaders = (\<lambda>k. if k = (Liquid, 10) then Some header10 else None), trace = []\<rparr>"



subsection \<open>The fee of an output list, and wallets that know less\<close>

text \<open>The fee an output list leaves behind: the value of its last fee output, if any.\<close>

fun feeOf :: "liquidjs \<Rightarrow> Output list \<Rightarrow> int \<Rightarrow> int" where
  "feeOf L [] fee = fee"
| "feeOf L (out # rest) fee =
     feeOf L rest
       (if script out = [] then
          (case ElementsValue_fromBytes L (out_value out) of
             None \<Rightarrow> fee
           | Some ev \<Rightarrow> (case number ev of None \<Rightarrow> fee | Some n \<Rightarrow> int n))
        else fee)"

text \<open>
  Wallet \<open>W'\<close> knows less than wallet \<open>W\<close>: each lookup of \<open>W'\<close> either answers as \<open>W\<close>
  does, or is absent (no secret, no witness output).
\<close>

definition lessKnown :: "WalletRepository \<Rightarrow> WalletRepository \<Rightarrow> bool" where
  "lessKnown W' W \<longleftrightarrow>
     (\<forall>t i. noSecret (getOutputBlindingData W' t i) \<or>
            getOutputBlindingData W' t i = getOutputBlindingData W t i) \<and>
     (\<forall>t i. getWitnessUtxo W' t i = Resolved None \<or>
            getWitnessUtxo W' t i = getWitnessUtxo W t i)"

section \<open>Records keep distinct keys\<close>

text \<open>
  Every record the code builds starts empty and is only changed by assignments to a key, so
  its association list has distinct keys and its length is the number of its keys.
\<close>

lemma balances_loop_distinct:
  "distinct (map fst balances) \<Longrightarrow> distinct (map fst (balances_loop utxos balances))"
  by (induction utxos arbitrary: balances) (auto simp add: distinct_update split: option.splits)

lemma computeBalances_distinct: "distinct (map fst (computeBalances utxos))"
  by (simp add: computeBalances_def balances_loop_distinct)

lemma output_step_distinct:
  "output_step L W txid i out st = Inr st' \<Longrightarrow> distinct (map fst (snd st)) \<Longrightarrow>
     distinct (map fst (snd st'))"
  by (auto simp add: output_step_def distinct_update
        split: option.splits promise.splits if_splits)

lemma outputs_loop_distinct:
  "outputs_loop L W txid i outputs st = Inr st' \<Longrightarrow> distinct (map fst (snd st)) \<Longrightarrow>
     distinct (map fst (snd st'))"
proof (induction outputs arbitrary: i st)
  case Nil
  then show ?case by simp
next
  case (Cons out rest)
  from Cons.prems(1) obtain s1 where s1: "output_step L W txid i out st = Inr s1"
    and r: "outputs_loop L W txid (Suc i) rest s1 = Inr st'"
    by (auto split: sum.splits)
  from output_step_distinct [OF s1 Cons.prems(2)] have "distinct (map fst (snd s1))" .
  with r show ?case by (rule Cons.IH)
qed

lemma input_step_distinct:
  "input_step L W input flow = Inr flow' \<Longrightarrow> distinct (map fst flow) \<Longrightarrow>
     distinct (map fst flow')"
  by (auto simp add: input_step_def Let_def distinct_update
        split: option.splits promise.splits if_splits)

lemma inputs_loop_distinct:
  "inputs_loop L W inputs flow = Inr flow' \<Longrightarrow> distinct (map fst flow) \<Longrightarrow>
     distinct (map fst flow')"
proof (induction inputs arbitrary: flow)
  case Nil
  then show ?case by simp
next
  case (Cons input rest)
  from Cons.prems(1) obtain f1 where f1: "input_step L W input flow = Inr f1"
    and r: "inputs_loop L W rest f1 = Inr flow'"
    by (auto split: sum.splits)
  from input_step_distinct [OF f1 Cons.prems(2)] have "distinct (map fst f1)" .
  with r show ?case by (rule Cons.IH)
qed

lemma flowPasses_distinct:
  assumes "flowPasses L W tx = Inr (fee, flow)"
  shows "distinct (map fst flow)"
proof -
  from assms obtain s where
    o: "outputs_loop L W (getId tx) 0 (outs tx) (0, []) = Inr s"
    and i: "inputs_loop L W (ins tx) (snd s) = Inr flow"
    by (auto simp add: flowPasses_def split: sum.splits)
  from outputs_loop_distinct [OF o] have "distinct (map fst (snd s))" by simp
  with i show ?thesis by (rule inputs_loop_distinct)
qed

section \<open>Balance aggregation\<close>

lemma roundToDouble_exact: "\<bar>x\<bar> < 2 ^ 53 \<Longrightarrow> roundToDouble x = x"
  by (simp add: roundToDouble_def)

lemma jsAdd_exact: "\<bar>a\<bar> + \<bar>b\<bar> < 2 ^ 53 \<Longrightarrow> jsAdd a b = a + b"
  unfolding jsAdd_def by (rule roundToDouble_exact) linarith

lemma no_credit_sum:
  "\<forall>u \<in> set utxos. credit a u = None \<Longrightarrow> sum_list (map (\<lambda>u. orZero (credit a u)) utxos) = 0"
  by (induction utxos) (simp_all add: orZero_def)

lemma assetVolume_nonneg: "0 \<le> assetVolume a utxos"
  unfolding assetVolume_def by (rule sum_list_nonneg) auto

lemma assetVolume_Cons:
  "assetVolume a (u # utxos) = \<bar>orZero (credit a u)\<bar> + assetVolume a utxos"
  by (simp add: assetVolume_def)

lemma balances_loop_lookup:
  "\<bar>orZero (map_of balances a)\<bar> + assetVolume a utxos < 2 ^ 53 \<Longrightarrow>
   map_of (balances_loop utxos balances) a =
     (if \<exists>u \<in> set utxos. credit a u \<noteq> None
      then Some (orZero (map_of balances a) + sum_list (map (\<lambda>u. orZero (credit a u)) utxos))
      else map_of balances a)"
proof (induction utxos arbitrary: balances)
  case Nil
  show ?case by simp
next
  case (Cons utxo utxos)
  note bound = Cons.prems [unfolded assetVolume_Cons]
  show ?case
  proof (cases "blindingData utxo")
    case None
    then have c: "credit a utxo = None" by (simp add: credit_def)
    with bound have "\<bar>orZero (map_of balances a)\<bar> + assetVolume a utxos < 2 ^ 53"
      by (simp add: orZero_def)
    from Cons.IH [OF this] None c show ?thesis by (simp add: orZero_def)
  next
    case (Some bd)
    let ?b = "AList.update (ud_asset bd)
                (jsAdd (orZero (map_of balances (ud_asset bd))) (ud_value bd)) balances"
    have step: "balances_loop (utxo # utxos) balances = balances_loop utxos ?b"
      using Some by simp
    show ?thesis
    proof (cases "ud_asset bd = a")
      case True
      then have c: "credit a utxo = Some (ud_value bd)" using Some by (simp add: credit_def)
      have v: "0 \<le> assetVolume a utxos" by (rule assetVolume_nonneg)
      from bound c have b1: "\<bar>orZero (map_of balances a)\<bar> + \<bar>ud_value bd\<bar> + assetVolume a utxos < 2 ^ 53"
        by (simp add: orZero_def)
      with v have "\<bar>orZero (map_of balances a)\<bar> + \<bar>ud_value bd\<bar> < 2 ^ 53" by linarith
      then have e: "jsAdd (orZero (map_of balances a)) (ud_value bd) =
                    orZero (map_of balances a) + ud_value bd"
        by (rule jsAdd_exact)
      have m: "map_of ?b a = Some (orZero (map_of balances a) + ud_value bd)"
        using True e by (simp add: update_conv')
      then have "orZero (map_of ?b a) = orZero (map_of balances a) + ud_value bd"
        by (simp add: orZero_def)
      with b1 have "\<bar>orZero (map_of ?b a)\<bar> + assetVolume a utxos < 2 ^ 53" by linarith
      from Cons.IH [OF this] show ?thesis
        unfolding step using c m no_credit_sum [of utxos a]
        by (auto simp add: orZero_def)
    next
      case False
      then have c: "credit a utxo = None" using Some by (simp add: credit_def)
      have m: "map_of ?b a = map_of balances a"
        using False by (simp add: update_conv')
      have z: "orZero (credit a utxo) = 0" using c by (simp add: orZero_def)
      have "\<bar>orZero (map_of ?b a)\<bar> + assetVolume a utxos < 2 ^ 53"
        unfolding m using bound z by simp
      from Cons.IH [OF this] show ?thesis
        unfolding step using c m by (simp add: orZero_def)
    qed
  qed
qed

lemma computeBalances_lookup:
  assumes "assetVolume a utxos < 2 ^ 53"
  shows "map_of (computeBalances utxos) a =
     (if \<exists>u \<in> set utxos. credit a u \<noteq> None
      then Some (sum_mset (image_mset (\<lambda>u. orZero (credit a u)) (mset utxos)))
      else None)"
proof -
  have s: "sum_list (map (\<lambda>u. orZero (credit a u)) utxos) =
        sum_mset (image_mset (\<lambda>u. orZero (credit a u)) (mset utxos))"
    by (metis mset_map sum_mset_sum_list)
  from assms have "\<bar>orZero (map_of [] a)\<bar> + assetVolume a utxos < 2 ^ 53"
    by (simp add: orZero_def)
  from balances_loop_lookup [OF this] s show ?thesis
    unfolding computeBalances_def by (simp add: orZero_def)
qed

lemma assetVolume_mset:
  "mset utxos = mset utxos' \<Longrightarrow> assetVolume a utxos = assetVolume a utxos'"
proof -
  assume p: "mset utxos = mset utxos'"
  have "assetVolume a utxos = sum_mset (image_mset (\<lambda>u. \<bar>orZero (credit a u)\<bar>) (mset utxos))"
    unfolding assetVolume_def by (metis mset_map sum_mset_sum_list)
  also have "\<dots> = sum_mset (image_mset (\<lambda>u. \<bar>orZero (credit a u)\<bar>) (mset utxos'))"
    by (simp only: p)
  also have "\<dots> = assetVolume a utxos'"
    unfolding assetVolume_def by (metis mset_map sum_mset_sum_list)
  finally show ?thesis .
qed

text \<open>
  C9 (amended). \<open>computeBalances\<close> of the empty list is the empty record. For a list of
  unblinded outputs whose asset identifiers are hex strings and whose amounts are integers
  with, for every asset, a sum of absolute amounts below \<open>2 ^ 53\<close>, every permutation of
  the list (a list equal to it as a multiset) gives the same balance for every asset.
\<close>

theorem computeBalances_order_invariant_in_safe_range:
  "computeBalances [] = [] \<and>
   (hexAssets utxos \<and> (\<forall>a. assetVolume a utxos < 2 ^ 53) \<and> mset utxos = mset utxos' \<longrightarrow>
      map_of (computeBalances utxos) = map_of (computeBalances utxos'))"
proof
  show "computeBalances [] = []" by (simp add: computeBalances_def)
next
  show "hexAssets utxos \<and> (\<forall>a. assetVolume a utxos < 2 ^ 53) \<and> mset utxos = mset utxos' \<longrightarrow>
      map_of (computeBalances utxos) = map_of (computeBalances utxos')"
  proof
    assume h: "hexAssets utxos \<and> (\<forall>a. assetVolume a utxos < 2 ^ 53) \<and> mset utxos = mset utxos'"
    then have p: "mset utxos = mset utxos'" by simp
    then have s: "set utxos = set utxos'" by (rule mset_eq_setD)
    show "map_of (computeBalances utxos) = map_of (computeBalances utxos')"
    proof
      fix a
      from h have b: "assetVolume a utxos < 2 ^ 53" by simp
      with assetVolume_mset [OF p, of a] have b': "assetVolume a utxos' < 2 ^ 53" by simp
      show "map_of (computeBalances utxos) a = map_of (computeBalances utxos') a"
        unfolding computeBalances_lookup [OF b] computeBalances_lookup [OF b']
        by (simp only: p s)
    qed
  qed
qed

theorem computeBalances_safe_range_witness:
  "hexAssets [secret7, unknownCoin, secret3] \<and>
   assetVolume ''aa'' [secret7, unknownCoin, secret3] = 10 \<and>
   mset [secret7, unknownCoin, secret3] = mset [secret3, secret7, unknownCoin] \<and>
   map_of (computeBalances [secret7, unknownCoin, secret3]) =
   map_of (computeBalances [secret3, secret7, unknownCoin])"
proof -
  have h: "hexAssets [secret7, unknownCoin, secret3]"
    by code_simp
  have v: "\<forall>a. assetVolume a [secret7, unknownCoin, secret3] < 2 ^ 53"
    by (simp add: assetVolume_def credit_def orZero_def secret7_def secret3_def unknownCoin_def)
  have t: "assetVolume ''aa'' [secret7, unknownCoin, secret3] = 10"
    by code_simp
  have p: "mset [secret7, unknownCoin, secret3] = mset [secret3, secret7, unknownCoin]"
    by simp
  show ?thesis
    using h v t p
      computeBalances_order_invariant_in_safe_range
        [of "[secret7, unknownCoin, secret3]" "[secret3, secret7, unknownCoin]"]
    by blast
qed

text \<open>
  C9 as stated fails: these seven outputs of one asset, five of 2100000000000000 and two
  of 1, sum to 10500000000000000 in the order given (each 1 is rounded away once the total
  is above \<open>2 ^ 53\<close>) and to 10500000000000002 in the reverse order.
\<close>

theorem computeBalances_rounding_counterexample:
  "mset (rev largeCoins) = mset largeCoins \<and>
   computeBalances largeCoins = [(''aa'', 10500000000000000)] \<and>
   computeBalances (rev largeCoins) = [(''aa'', 10500000000000002)] \<and>
   map_of (computeBalances largeCoins) \<noteq> map_of (computeBalances (rev largeCoins))"
proof -
  have a: "computeBalances largeCoins = [(''aa'', 10500000000000000)]"
    by code_simp
  have b: "computeBalances (rev largeCoins) = [(''aa'', 10500000000000002)]"
    by code_simp
  have "map_of (computeBalances largeCoins) ''aa'' \<noteq> map_of (computeBalances (rev largeCoins)) ''aa''"
    unfolding a b by simp
  then have c: "map_of (computeBalances largeCoins) \<noteq> map_of (computeBalances (rev largeCoins))"
    by metis
  show ?thesis using a b c by simp
qed

section \<open>Which errors each stage can raise\<close>

lemma output_step_errors:
  "output_step L W txid i output st = Inl e \<Longrightarrow> e = LibraryError \<or> e = CollaboratorError"
  by (auto simp add: output_step_def split: option.splits if_splits promise.splits)

lemma outputs_loop_errors:
  "outputs_loop L W txid i outputs st = Inl e \<Longrightarrow> e = LibraryError \<or> e = CollaboratorError"
proof (induction outputs arbitrary: i st)
  case Nil
  then show ?case by simp
next
  case (Cons out rest)
  show ?case
  proof (cases "output_step L W txid i out st")
    case (Inl e')
    with Cons.prems have "e' = e" by simp
    with Inl show ?thesis using output_step_errors by blast
  next
    case (Inr st')
    with Cons.prems have "outputs_loop L W txid (Suc i) rest st' = Inl e" by simp
    then show ?thesis by (rule Cons.IH)
  qed
qed

lemma input_step_errors:
  "input_step L W input flow = Inl e \<Longrightarrow> e = LibraryError \<or> e = CollaboratorError"
  by (auto simp add: input_step_def Let_def split: option.splits if_splits promise.splits)

lemma inputs_loop_errors:
  "inputs_loop L W inputs flow = Inl e \<Longrightarrow> e = LibraryError \<or> e = CollaboratorError"
proof (induction inputs arbitrary: flow)
  case Nil
  then show ?case by simp
next
  case (Cons input rest)
  show ?case
  proof (cases "input_step L W input flow")
    case (Inl e')
    with Cons.prems have "e' = e" by simp
    with Inl show ?thesis using input_step_errors by blast
  next
    case (Inr flow')
    with Cons.prems have "inputs_loop L W rest flow' = Inl e" by simp
    then show ?thesis by (rule Cons.IH)
  qed
qed

lemma flowPasses_errors:
  "flowPasses L W transaction = Inl e \<Longrightarrow> e = LibraryError \<or> e = CollaboratorError"
  unfolding flowPasses_def
  by (auto split: sum.splits dest: outputs_loop_errors inputs_loop_errors)

lemma blockHeaderLookup_errors:
  "blockHeaderLookup A w network h = (Inl e, w') \<Longrightarrow> e = CollaboratorError"
  by (auto simp add: blockHeaderLookup_def Let_def split: option.splits promise.splits)

lemma enrich_network_found:
  assumes "height details = Some h" and "h \<noteq> - 1"
      and "getNetwork A = Resolved (Some network)"
      and "blockHeaderLookup A w network h = (r, w')"
  shows "enrich L A w details tid fee flow =
           (case r of
              Inl e \<Rightarrow> (Inl e, w')
            | Inr NoChainSource \<Rightarrow> (Inr (extended details tid flow fee None), w')
            | Inr (Header bh) \<Rightarrow>
                (Inr (extended details tid
                        (selfTransferCorrection (assetHash L network) fee flow) fee bh), w'))"
  using assms by (simp add: enrich_def split: sum.splits lookup.splits)

lemma enrich_errors:
  "fst (enrich L A w details tid fee flow) = Inl e \<Longrightarrow>
     e = CollaboratorError \<or>
     (e = NetworkNotConfigured \<and> heightKnown details \<and> getNetwork A = Resolved None)"
proof (cases "heightKnown details")
  case False
  assume "fst (enrich L A w details tid fee flow) = Inl e"
  with False show ?thesis
    by (auto simp add: enrich_def heightKnown_def split: option.splits if_splits)
next
  case True
  assume raised: "fst (enrich L A w details tid fee flow) = Inl e"
  from True obtain h where h: "height details = Some h" "h \<noteq> - 1"
    by (auto simp add: heightKnown_def split: option.splits)
  show ?thesis
  proof (cases "getNetwork A")
    case Rejected
    with h raised show ?thesis by (simp add: enrich_def)
  next
    case (Resolved n)
    show ?thesis
    proof (cases n)
      case None
      with Resolved h raised True show ?thesis by (simp add: enrich_def)
    next
      case (Some network)
      obtain r w' where l: "blockHeaderLookup A w network h = (r, w')"
        by (cases "blockHeaderLookup A w network h")
      note e = enrich_network_found [OF h Resolved [unfolded Some] l, of L tid fee flow]
      show ?thesis
      proof (cases r)
        case (Inl e')
        with l have "e' = CollaboratorError" using blockHeaderLookup_errors by blast
        with Inl e raised show ?thesis by simp
      next
        case (Inr outcome)
        with e raised show ?thesis by (cases outcome) simp_all
      qed
    qed
  qed
qed

lemma enrich_no_network:
  assumes "heightKnown details" and "getNetwork A = Resolved None"
  shows "enrich L A w details tid fee flow = (Inl NetworkNotConfigured, w)"
  using assms by (auto simp add: enrich_def heightKnown_def split: option.splits)

lemma compute_after_passes:
  assumes "hex details = Some h" and "h \<noteq> []"
      and "Transaction_fromHex L h = Some tx"
      and "flowPasses L W tx = Inr (fee, flow)"
  shows "computeTxDetailsExtended L A W w details = enrich L A w details (getId tx) fee flow"
  using assms by (simp add: computeTxDetailsExtended_def)

section \<open>The errors of computeTxDetailsExtended\<close>

text \<open>
  C6 (amended). \<open>computeTxDetailsExtended\<close> fails with \<open>MissingTransactionData\<close> exactly when
  the \<open>hex\<close> field of the record is absent or is the empty string: in that case it raises the
  error before anything else (no library or repository result matters and the state is
  unchanged), and for a record with a non-empty \<open>hex\<close> it never raises this error.
\<close>

theorem missing_hex_exactly_when_falsy:
  "(hex details = None \<or> hex details = Some [] \<longrightarrow>
      computeTxDetailsExtended L A W w details = (Inl MissingTransactionData, w)) \<and>
   (fst (computeTxDetailsExtended L A W w details) = Inl MissingTransactionData \<longrightarrow>
      hex details = None \<or> hex details = Some [])"
proof (intro conjI impI)
  assume "hex details = None \<or> hex details = Some []"
  then show "computeTxDetailsExtended L A W w details = (Inl MissingTransactionData, w)"
    by (auto simp add: computeTxDetailsExtended_def)
next
  assume raised: "fst (computeTxDetailsExtended L A W w details) = Inl MissingTransactionData"
  show "hex details = None \<or> hex details = Some []"
  proof (rule ccontr)
    assume "\<not> (hex details = None \<or> hex details = Some [])"
    then obtain h where h: "hex details = Some h" "h \<noteq> []" by auto
    show False
    proof (cases "Transaction_fromHex L h")
      case None
      with h raised show False by (simp add: computeTxDetailsExtended_def)
    next
      case (Some tx)
      show False
      proof (cases "flowPasses L W tx")
        case (Inl e)
        then have "e \<noteq> MissingTransactionData" using flowPasses_errors by fastforce
        with Inl Some h raised show False by (simp add: computeTxDetailsExtended_def)
      next
        case (Inr st)
        with Some h raised
        have "fst (enrich L A w details (getId tx) (fst st) (snd st)) = Inl MissingTransactionData"
          by (simp add: computeTxDetailsExtended_def)
        then show False using enrich_errors by fastforce
      qed
    qed
  qed
qed

theorem missing_hex_witness:
  "hex \<lparr>height = Some 10, hex = None\<rparr> = None \<and>
   computeTxDetailsExtended (testLib selfTx) appNoChain testWallet emptyWorld
     \<lparr>height = Some 10, hex = None\<rparr> = (Inl MissingTransactionData, emptyWorld)"
  using missing_hex_exactly_when_falsy
          [of "\<lparr>height = Some 10, hex = None\<rparr>" "testLib selfTx" appNoChain testWallet emptyWorld]
  by simp

text \<open>
  C6 as stated fails: the \<open>hex\<close> field of this record is present (it is the empty string),
  and the call raises \<open>MissingTransactionData\<close>.
\<close>

theorem empty_hex_counterexample:
  "hex \<lparr>height = Some 10, hex = Some ''''\<rparr> \<noteq> None \<and>
   fst (computeTxDetailsExtended (testLib selfTx) appNoChain testWallet emptyWorld
          \<lparr>height = Some 10, hex = Some ''''\<rparr>) = Inl MissingTransactionData"
  by (simp add: computeTxDetailsExtended_def)

text \<open>
  C5 (amended). \<open>computeTxDetailsExtended\<close> fails with \<open>NetworkNotConfigured\<close> exactly when
  the record has a non-empty hex that parses, both passes complete, the height is known
  (defined and not -1) and no active network is known. So an unconfirmed record never
  raises it, and neither does an unavailable chain source: the chain source is only asked
  for after the network was found.
\<close>

theorem network_not_configured_exactly:
  "fst (computeTxDetailsExtended L A W w details) = Inl NetworkNotConfigured \<longleftrightarrow>
     passesComplete L W details \<and> heightKnown details \<and> getNetwork A = Resolved None"
proof (cases "hex details")
  case None
  then show ?thesis by (simp add: computeTxDetailsExtended_def passesComplete_def)
next
  case (Some h)
  show ?thesis
  proof (cases "h = []")
    case True
    with Some show ?thesis by (simp add: computeTxDetailsExtended_def passesComplete_def)
  next
    case False
    show ?thesis
    proof (cases "Transaction_fromHex L h")
      case None
      with Some False show ?thesis
        by (simp add: computeTxDetailsExtended_def passesComplete_def)
    next
      case tx: (Some tx)
      show ?thesis
      proof (cases "flowPasses L W tx")
        case (Inl e)
        then have "e \<noteq> NetworkNotConfigured" using flowPasses_errors by fastforce
        with Inl tx Some False show ?thesis
          by (simp add: computeTxDetailsExtended_def passesComplete_def)
      next
        case (Inr st)
        with tx Some False have p: "passesComplete L W details"
          by (simp add: passesComplete_def)
        from Inr tx Some False
        have c: "computeTxDetailsExtended L A W w details =
                 enrich L A w details (getId tx) (fst st) (snd st)"
          by (simp add: computeTxDetailsExtended_def)
        show ?thesis
          unfolding c using p enrich_errors [of L A w details "getId tx" "fst st" "snd st"]
            enrich_no_network [of details A L w "getId tx" "fst st" "snd st"]
          by auto
      qed
    qed
  qed
qed

theorem network_not_configured_witness:
  "passesComplete (testLib selfTx) testWallet confirmed \<and> heightKnown confirmed \<and>
   getNetwork appNoNetwork = Resolved None \<and>
   fst (computeTxDetailsExtended (testLib selfTx) appNoNetwork testWallet emptyWorld confirmed) =
     Inl NetworkNotConfigured"
proof -
  have p: "passesComplete (testLib selfTx) testWallet confirmed"
    by code_simp
  have k: "heightKnown confirmed"
    by (simp add: heightKnown_def confirmed_def)
  have n: "getNetwork appNoNetwork = Resolved None"
    by (simp add: appNoNetwork_def)
  show ?thesis
    using p k n
      network_not_configured_exactly
        [of "testLib selfTx" appNoNetwork testWallet emptyWorld confirmed]
    by simp
qed

text \<open>
  C5 as stated fails: this record is confirmed (height 10), its block header is not cached
  and the chain source is unavailable, and the call returns a record instead of failing
  with \<open>NetworkNotConfigured\<close>.
\<close>

theorem chain_source_unavailable_counterexample:
  "heightKnown confirmed \<and>
   getChainSource appNoChain Liquid = Resolved None \<and>
   fst (computeTxDetailsExtended (testLib selfTx) appNoChain testWallet emptyWorld confirmed) =
     Inr \<lparr>height = Some 10, hex = Some ''00'', txID = ''1d'',
          txFlow = [(''6f'', - 5)], feeAmount = 5, blockHeader = None\<rparr>"
proof (intro conjI)
  show "heightKnown confirmed"
    by (simp add: heightKnown_def confirmed_def)
  show "getChainSource appNoChain Liquid = Resolved None"
    by (simp add: appNoChain_def)
  show "fst (computeTxDetailsExtended (testLib selfTx) appNoChain testWallet emptyWorld confirmed) =
     Inr \<lparr>height = Some 10, hex = Some ''00'', txID = ''1d'',
          txFlow = [(''6f'', - 5)], feeAmount = 5, blockHeader = None\<rparr>"
    by code_simp
qed

section \<open>Returns without the self-transfer correction\<close>

text \<open>
  C10. When both passes have produced \<open>feeAmount\<close> and the flow, and either the record is
  unconfirmed (height absent or -1), or it is confirmed with a known network, no cached
  block header and no chain source, \<open>computeTxDetailsExtended\<close> returns the accumulated flow
  as it is, without block header and with the state unchanged: the self-transfer correction
  is not applied. In particular a native-asset entry \<open>v\<close> with \<open>v + feeAmount = 0\<close> is
  returned as \<open>- feeAmount\<close>, neither zeroed nor removed.
\<close>

theorem early_return_keeps_accumulated_flow:
  assumes "hex details = Some h" and "h \<noteq> []"
      and "Transaction_fromHex L h = Some tx"
      and "flowPasses L W tx = Inr (fee, flow)"
      and "\<not> heightKnown details \<or>
           (\<exists>hgt network. height details = Some hgt \<and>
              getNetwork A = Resolved (Some network) \<and>
              getBlockHeader w network hgt = None \<and>
              getChainSource A network = Resolved None)"
  shows "computeTxDetailsExtended L A W w details =
           (Inr (extended details (getId tx) flow fee None), w) \<and>
         txFlow (extended details (getId tx) flow fee None) = flow \<and>
         (map_of flow native = Some v \<and> v + fee = 0 \<longrightarrow>
            map_of (txFlow (extended details (getId tx) flow fee None)) native = Some (- fee))"
proof -
  have c: "computeTxDetailsExtended L A W w details = enrich L A w details (getId tx) fee flow"
    using assms(1-4) by (rule compute_after_passes)
  have e: "enrich L A w details (getId tx) fee flow =
             (Inr (extended details (getId tx) flow fee None), w)"
  proof (cases "heightKnown details")
    case False
    then show ?thesis
      by (auto simp add: enrich_def heightKnown_def split: option.splits)
  next
    case True
    with assms(5) obtain hgt network where
      k: "height details = Some hgt" "getNetwork A = Resolved (Some network)"
         "getBlockHeader w network hgt = None" "getChainSource A network = Resolved None"
      by blast
    from True k(1) have "hgt \<noteq> - 1" by (simp add: heightKnown_def)
    moreover have "blockHeaderLookup A w network hgt = (Inr NoChainSource, w)"
      using k(3,4) by (simp add: blockHeaderLookup_def)
    ultimately show ?thesis using k(1,2) by (simp add: enrich_def)
  qed
  have t: "txFlow (extended details (getId tx) flow fee None) = flow"
    by (simp add: extended_def)
  show ?thesis unfolding c e t by auto
qed

theorem early_return_witness:
  "computeTxDetailsExtended (testLib selfTx) appNoChain testWallet emptyWorld unconfirmed =
     (Inr (extended unconfirmed ''1d'' [(''6f'', - 5)] 5 None), emptyWorld) \<and>
   computeTxDetailsExtended (testLib selfTx) appNoChain testWallet emptyWorld confirmed =
     (Inr (extended confirmed ''1d'' [(''6f'', - 5)] 5 None), emptyWorld) \<and>
   map_of (txFlow (extended confirmed ''1d'' [(''6f'', - 5)] 5 None)) ''6f'' = Some (- 5)"
proof -
  have hx: "hex unconfirmed = Some ''00''" "hex confirmed = Some ''00''" "''00'' \<noteq> []"
    by (simp_all add: unconfirmed_def confirmed_def)
  have px: "Transaction_fromHex (testLib selfTx) ''00'' = Some selfTx"
    by (simp add: testLib_def)
  have fl: "flowPasses (testLib selfTx) testWallet selfTx = Inr (5, [(''6f'', - 5)])"
    by code_simp
  have u: "\<not> heightKnown unconfirmed \<or>
           (\<exists>hgt network. height unconfirmed = Some hgt \<and>
              getNetwork appNoChain = Resolved (Some network) \<and>
              getBlockHeader emptyWorld network hgt = None \<and>
              getChainSource appNoChain network = Resolved None)"
    by (simp add: heightKnown_def unconfirmed_def)
  have "height confirmed = Some 10 \<and>
        getNetwork appNoChain = Resolved (Some Liquid) \<and>
        getBlockHeader emptyWorld Liquid 10 = None \<and>
        getChainSource appNoChain Liquid = Resolved None"
    by (simp add: confirmed_def appNoChain_def getBlockHeader_def emptyWorld_def)
  then have k: "\<not> heightKnown confirmed \<or>
           (\<exists>hgt network. height confirmed = Some hgt \<and>
              getNetwork appNoChain = Resolved (Some network) \<and>
              getBlockHeader emptyWorld network hgt = None \<and>
              getChainSource appNoChain network = Resolved None)"
    by blast
  have g: "getId selfTx = ''1d''" by (simp add: selfTx_def)
  show ?thesis
    using early_return_keeps_accumulated_flow
            [OF hx(1) hx(3) px fl u, of "''6f''" "- 5"]
          early_return_keeps_accumulated_flow
            [OF hx(2) hx(3) px fl k, of "''6f''" "- 5"]
    by (simp add: g)
qed

section \<open>The self-transfer correction\<close>

lemma correction_single:
  "v + fee = 0 \<Longrightarrow> selfTransferCorrection native fee [(native, v)] = [(native, 0)]"
  by (simp add: selfTransferCorrection_def)

lemma two_keys_length:
  assumes "map_of flow native = Some v" and "a \<in> fst ` set flow" and "a \<noteq> native"
  shows "length flow \<noteq> 1"
proof
  assume "length flow = 1"
  then obtain x where x: "flow = [x]" by (cases flow) auto
  with assms(2) have "a = fst x" by simp
  moreover from x assms(1) have "native = fst x" by (cases x) (auto split: if_splits)
  ultimately show False using assms(3) by simp
qed

lemma correction_other:
  assumes "map_of flow native = Some v" and "v + fee = 0" and "length flow \<noteq> 1"
  shows "selfTransferCorrection native fee flow = AList.delete native flow"
  using assms by (simp add: selfTransferCorrection_def)

lemma compute_corrected:
  assumes "hex details = Some h" and "h \<noteq> []"
      and "Transaction_fromHex L h = Some tx"
      and "flowPasses L W tx = Inr (fee, flow)"
      and "height details = Some hgt" and "hgt \<noteq> - 1"
      and "getNetwork A = Resolved (Some network)"
      and "blockHeaderLookup A w network hgt = (Inr (Header bh), w')"
  shows "computeTxDetailsExtended L A W w details =
           (Inr (extended details (getId tx)
                   (selfTransferCorrection (assetHash L network) fee flow) fee bh), w')"
  unfolding compute_after_passes [OF assms(1-4)]
  using enrich_network_found [OF assms(5-8)] by simp

text \<open>
  C1 (amended). For a confirmed record (height defined and not -1) with a non-empty hex
  that parses, a known network, and a block-header lookup that completes (the header is
  cached, or a chain source is available and its fetch and close resolve): if after the
  output and input passes the flow has exactly one entry, for the network's native asset,
  and that entry plus \<open>feeAmount\<close> is 0, then the returned flow is that one entry set to 0.
\<close>

theorem self_transfer_entry_zeroed:
  assumes "hex details = Some h" and "h \<noteq> []"
      and "Transaction_fromHex L h = Some tx"
      and "flowPasses L W tx = Inr (fee, [(assetHash L network, v)])"
      and "v + fee = 0"
      and "height details = Some hgt" and "hgt \<noteq> - 1"
      and "getNetwork A = Resolved (Some network)"
      and "blockHeaderLookup A w network hgt = (Inr (Header bh), w')"
  shows "computeTxDetailsExtended L A W w details =
           (Inr (extended details (getId tx) [(assetHash L network, 0)] fee bh), w')"
  unfolding compute_corrected [OF assms(1-4) assms(6-9)]
  using correction_single [OF assms(5)] by simp

theorem self_transfer_witness:
  "flowPasses (testLib selfTx) testWallet selfTx = Inr (5, [(assetHash (testLib selfTx) Liquid, - 5)]) \<and>
   blockHeaderLookup (appWith goodSource) cachedWorld Liquid 10 =
     (Inr (Header (Some header10)), cachedWorld) \<and>
   computeTxDetailsExtended (testLib selfTx) (appWith goodSource) testWallet cachedWorld confirmed =
     (Inr (extended confirmed ''1d'' [(''6f'', 0)] 5 (Some header10)), cachedWorld)"
proof -
  have hx: "hex confirmed = Some ''00''" "''00'' \<noteq> []"
    by (simp_all add: confirmed_def)
  have px: "Transaction_fromHex (testLib selfTx) ''00'' = Some selfTx"
    by (simp add: testLib_def)
  have fl: "flowPasses (testLib selfTx) testWallet selfTx =
              Inr (5, [(assetHash (testLib selfTx) Liquid, - 5)])"
    by code_simp
  have z: "- 5 + (5::int) = 0" by simp
  have hk: "height confirmed = Some 10" "(10::int) \<noteq> - 1"
    by (simp_all add: confirmed_def)
  have nw: "getNetwork (appWith goodSource) = Resolved (Some Liquid)"
    by (simp add: appWith_def)
  have lk: "blockHeaderLookup (appWith goodSource) cachedWorld Liquid 10 =
              (Inr (Header (Some header10)), cachedWorld)"
    by (simp add: blockHeaderLookup_def getBlockHeader_def cachedWorld_def)
  have g: "getId selfTx = ''1d''" "assetHash (testLib selfTx) Liquid = ''6f''"
    by (simp_all add: selfTx_def testLib_def testNative_def)
  show ?thesis
    using fl lk self_transfer_entry_zeroed [OF hx px fl z hk nw lk]
    by (simp add: g)
qed

text \<open>
  C1 as stated fails: this record has a hex, the passes leave the single entry
  \<open>(native, - 5)\<close> with fee 5, and since the record is unconfirmed the entry is returned
  as \<open>- 5\<close>, not 0.
\<close>

theorem unconfirmed_self_transfer_counterexample:
  "flowPasses (testLib selfTx) testWallet selfTx = Inr (5, [(''6f'', - 5)]) \<and>
   assetHash (testLib selfTx) Liquid = ''6f'' \<and>
   fst (computeTxDetailsExtended (testLib selfTx) (appWith goodSource) testWallet emptyWorld
          unconfirmed) =
     Inr \<lparr>height = None, hex = Some ''00'', txID = ''1d'',
          txFlow = [(''6f'', - 5)], feeAmount = 5, blockHeader = None\<rparr>"
  by code_simp

text \<open>
  C2 (amended). For a confirmed record (height defined and not -1) with a non-empty hex
  that parses, a known network, and a block-header lookup that completes: if after the
  output and input passes the native asset's entry plus \<open>feeAmount\<close> is 0 and the flow has
  an entry for at least one other asset, then the native-asset entry is removed from the
  returned flow and the entry of every other asset is unchanged.
\<close>

theorem fee_only_native_entry_removed:
  assumes "hex details = Some h" and "h \<noteq> []"
      and "Transaction_fromHex L h = Some tx"
      and "flowPasses L W tx = Inr (fee, flow)"
      and "map_of flow (assetHash L network) = Some v" and "v + fee = 0"
      and "a \<in> fst ` set flow" and "a \<noteq> assetHash L network"
      and "height details = Some hgt" and "hgt \<noteq> - 1"
      and "getNetwork A = Resolved (Some network)"
      and "blockHeaderLookup A w network hgt = (Inr (Header bh), w')"
  shows "computeTxDetailsExtended L A W w details =
           (Inr (extended details (getId tx)
                   (AList.delete (assetHash L network) flow) fee bh), w') \<and>
         map_of (txFlow (extended details (getId tx)
                   (AList.delete (assetHash L network) flow) fee bh)) =
           (map_of flow)(assetHash L network := None)"
proof -
  have "length flow \<noteq> 1"
    using assms(5,7,8) by (rule two_keys_length)
  then have "selfTransferCorrection (assetHash L network) fee flow =
             AList.delete (assetHash L network) flow"
    using assms(5,6) by (simp add: correction_other)
  then show ?thesis
    unfolding compute_corrected [OF assms(1-4) assms(9-12)]
    by (simp add: extended_def delete_conv')
qed

theorem fee_only_witness:
  "flowPasses (testLib swapTx) testWallet swapTx = Inr (5, [(''6f'', - 5), (''aa'', 7)]) \<and>
   fst (computeTxDetailsExtended (testLib swapTx) (appWith goodSource) testWallet emptyWorld
          confirmed) =
     Inr (extended confirmed ''2d'' [(''aa'', 7)] 5 (Some header10))"
proof -
  let ?w' = "snd (blockHeaderLookup (appWith goodSource) emptyWorld Liquid 10)"
  have hx: "hex confirmed = Some ''00''" "''00'' \<noteq> []"
    by (simp_all add: confirmed_def)
  have px: "Transaction_fromHex (testLib swapTx) ''00'' = Some swapTx"
    by (simp add: testLib_def)
  have fl: "flowPasses (testLib swapTx) testWallet swapTx = Inr (5, [(''6f'', - 5), (''aa'', 7)])"
    by code_simp
  have nat: "map_of [(''6f'', - 5), (''aa'', 7::int)] (assetHash (testLib swapTx) Liquid) = Some (- 5)"
    by (simp add: testLib_def testNative_def)
  have z: "- 5 + (5::int) = 0" by simp
  have other: "''aa'' \<in> fst ` set [(''6f'', - 5), (''aa'', 7::int)]"
              "''aa'' \<noteq> assetHash (testLib swapTx) Liquid"
    by (simp_all add: testLib_def testNative_def)
  have hk: "height confirmed = Some 10" "(10::int) \<noteq> - 1"
    by (simp_all add: confirmed_def)
  have nw: "getNetwork (appWith goodSource) = Resolved (Some Liquid)"
    by (simp add: appWith_def)
  have "fst (blockHeaderLookup (appWith goodSource) emptyWorld Liquid 10) =
          Inr (Header (Some header10))"
    by (simp add: blockHeaderLookup_def getBlockHeader_def emptyWorld_def appWith_def
          goodSource_def header10_def Let_def)
  then have lk: "blockHeaderLookup (appWith goodSource) emptyWorld Liquid 10 =
                   (Inr (Header (Some header10)), ?w')"
    by (simp add: prod_eq_iff)
  have g: "getId swapTx = ''2d''" "assetHash (testLib swapTx) Liquid = ''6f''"
    by (simp_all add: swapTx_def testLib_def testNative_def)
  show ?thesis
    using fl fee_only_native_entry_removed [OF hx px fl nat z other hk nw lk]
    by (simp add: g)
qed

text \<open>
  C2 as stated fails: this record has a hex, the passes leave \<open>(native, - 5)\<close> with fee 5
  and an entry for another asset, and since the block header is not cached and no chain
  source is available the native entry is returned, not removed.
\<close>

theorem no_chain_source_fee_only_counterexample:
  "flowPasses (testLib swapTx) testWallet swapTx = Inr (5, [(''6f'', - 5), (''aa'', 7)]) \<and>
   assetHash (testLib swapTx) Liquid = ''6f'' \<and>
   fst (computeTxDetailsExtended (testLib swapTx) appNoChain testWallet emptyWorld confirmed) =
     Inr \<lparr>height = Some 10, hex = Some ''00'', txID = ''2d'',
          txFlow = [(''6f'', - 5), (''aa'', 7)], feeAmount = 5, blockHeader = None\<rparr>"
  by code_simp

section \<open>Burn outputs\<close>




section \<open>The block header cache\<close>

lemma release_when_fetch_resolves:
  assumes "getBlockHeader w network h = None"
      and "getChainSource A network = Resolved (Some chainSource)"
      and "fetchBlockHeader chainSource h = Resolved fetched"
  shows "last (trace (snd (blockHeaderLookup A w network h))) = Closed"
  using assms
  by (simp add: blockHeaderLookup_def Let_def emit_def setBlockHeader_def
        split: option.splits promise.splits)

text \<open>
  C7 (the code diverges). The record is confirmed, the block header is not cached, a chain
  source is acquired and its \<open>fetchBlockHeader\<close> rejects: the call fails and the trace ends
  with the fetch, so \<open>close\<close> was never called on the acquired chain source.
\<close>

theorem chain_source_left_open_when_fetch_rejects:
  "fst (computeTxDetailsExtended (testLib selfTx) (appWith failingSource) testWallet emptyWorld
          confirmed) = Inl CollaboratorError \<and>
   trace (snd (computeTxDetailsExtended (testLib selfTx) (appWith failingSource) testWallet
                 emptyWorld confirmed)) = [Acquired Liquid, Fetched 10] \<and>
   Closed \<notin> set (trace (snd (computeTxDetailsExtended (testLib selfTx) (appWith failingSource)
                               testWallet emptyWorld confirmed)))"
  by code_simp

lemma lookup_miss_cases:
  assumes "getBlockHeader w network h = None"
      and "blockHeaderLookup A w network h = (r, w1)"
  shows "w1 = w \<or>
         w1 = emit (Fetched h) (emit (Acquired network) w) \<or>
         w1 = emit Closed (emit (Fetched h) (emit (Acquired network) w)) \<or>
         (\<exists>bh. w1 = emit Closed (setBlockHeader (emit (Fetched h) (emit (Acquired network) w)) network bh))"
  using assms
  by (auto simp add: blockHeaderLookup_def Let_def split: option.splits promise.splits)

lemma getBlockHeader_emit [simp]:
  "getBlockHeader (emit e w) network h = getBlockHeader w network h"
  by (simp add: getBlockHeader_def emit_def)

lemma fetches_emit:
  "fetches (emit e w) = fetches w + (if isFetched e then 1 else 0)"
  by (simp add: fetches_def emit_def)

lemma fetches_setBlockHeader:
  "fetches (setBlockHeader w network bh) = fetches w"
  by (simp add: fetches_def setBlockHeader_def emit_def)

text \<open>
  C8. If a block-header lookup for \<open>(network, h)\<close> misses and, when it returns, the store
  holds a header under that key, then a second lookup of the key in the resulting state
  returns the stored header and changes nothing (no chain source is acquired, nothing is
  fetched): exactly one fetch was issued over the two calls.
\<close>

theorem second_lookup_hits_the_store:
  assumes "getBlockHeader w network h = None"
      and "blockHeaderLookup A w network h = (r, w1)"
      and "getBlockHeader w1 network h = Some bh"
  shows "blockHeaderLookup A w1 network h = (Inr (Header (Some bh)), w1) \<and>
         fetches (snd (blockHeaderLookup A w1 network h)) = fetches w + 1"
proof -
  have hit: "blockHeaderLookup A w1 network h = (Inr (Header (Some bh)), w1)"
    using assms(3) by (simp add: blockHeaderLookup_def)
  from lookup_miss_cases [OF assms(1,2)] assms(1,3)
  obtain bh' where "w1 = emit Closed (setBlockHeader (emit (Fetched h) (emit (Acquired network) w)) network bh')"
    by auto
  then have "fetches w1 = fetches w + 1"
    by (simp add: fetches_emit fetches_setBlockHeader)
  with hit show ?thesis by simp
qed

theorem second_lookup_witness:
  "getBlockHeader emptyWorld Liquid 10 = None \<and>
   getBlockHeader (snd (blockHeaderLookup (appWith goodSource) emptyWorld Liquid 10)) Liquid 10 =
     Some header10 \<and>
   fst (blockHeaderLookup (appWith goodSource)
          (snd (blockHeaderLookup (appWith goodSource) emptyWorld Liquid 10)) Liquid 10) =
     Inr (Header (Some header10)) \<and>
   fetches (snd (blockHeaderLookup (appWith goodSource)
                   (snd (blockHeaderLookup (appWith goodSource) emptyWorld Liquid 10)) Liquid 10)) = 1"
proof -
  let ?l = "blockHeaderLookup (appWith goodSource) emptyWorld Liquid 10"
  have m: "getBlockHeader emptyWorld Liquid 10 = None"
    by (simp add: getBlockHeader_def emptyWorld_def)
  have l: "?l = (fst ?l, snd ?l)" by simp
  have p: "getBlockHeader (snd ?l) Liquid 10 = Some header10"
    by (simp add: blockHeaderLookup_def getBlockHeader_def emptyWorld_def appWith_def
          goodSource_def header10_def Let_def setBlockHeader_def emit_def)
  have f: "fetches emptyWorld = 0" by (simp add: fetches_def emptyWorld_def)
  note t = second_lookup_hits_the_store [OF m l p]
  have a: "fst (blockHeaderLookup (appWith goodSource) (snd ?l) Liquid 10) =
             Inr (Header (Some header10))"
    using t [THEN conjunct1] by simp
  have b: "fetches (snd (blockHeaderLookup (appWith goodSource) (snd ?l) Liquid 10)) = 1"
    using t [THEN conjunct2] f by simp
  show ?thesis
    using m p a b by blast
qed

section \<open>Absent lookups\<close>

lemma blind_output_skipped:
  "blindOutput L W txid i out \<Longrightarrow> output_step L W txid i out st = Inr st"
  by (auto simp add: blindOutput_def noSecret_def output_step_def
        split: option.splits promise.splits)

lemma fee_output_step:
  "feeOutput L out \<Longrightarrow>
     output_step L W txid i out st = Inr (feeOf L [out] (fst st), snd st)"
  by (auto simp add: feeOutput_def output_step_def split: option.splits)

lemma blind_output_fee:
  "blindOutput L W txid i out \<Longrightarrow> feeOf L (out # rest) fee = feeOf L rest fee"
  by (auto simp add: blindOutput_def split: option.splits)

lemma fee_output_fee:
  "feeOutput L out \<Longrightarrow> feeOf L (out # rest) fee = feeOf L rest (feeOf L [out] fee)"
  by simp

lemma unknown_outputs_loop:
  "unknownOutputs L W txid i outputs \<Longrightarrow>
     outputs_loop L W txid i outputs st = Inr (feeOf L outputs (fst st), snd st)"
proof (induction outputs arbitrary: i st)
  case Nil
  show ?case by simp
next
  case (Cons out rest)
  from Cons.prems have rest: "unknownOutputs L W txid (Suc i) rest"
    and this_one: "feeOutput L out \<or> blindOutput L W txid i out"
    by simp_all
  from this_one show ?case
  proof
    assume f: "feeOutput L out"
    have "outputs_loop L W txid i (out # rest) st =
          outputs_loop L W txid (Suc i) rest (feeOf L [out] (fst st), snd st)"
      using fee_output_step [OF f, of W txid i st] by simp
    also have "\<dots> = Inr (feeOf L rest (feeOf L [out] (fst st)), snd st)"
      using Cons.IH [OF rest, of "(feeOf L [out] (fst st), snd st)"] by simp
    finally show ?thesis
      using fee_output_fee [OF f, of rest "fst st"] by simp
  next
    assume b: "blindOutput L W txid i out"
    have "outputs_loop L W txid i (out # rest) st = outputs_loop L W txid (Suc i) rest st"
      using blind_output_skipped [OF b, of st] by simp
    also have "\<dots> = Inr (feeOf L rest (fst st), snd st)"
      using Cons.IH [OF rest, of st] by simp
    finally show ?thesis
      using blind_output_fee [OF b, of rest "fst st"] by simp
  qed
qed

lemma unknown_input_skipped:
  "unknownInput L W input \<Longrightarrow> input_step L W input flow = Inr flow"
  by (auto simp add: unknownInput_def noSecret_def input_step_def Let_def
        split: option.splits promise.splits)

lemma unknown_inputs_loop:
  "list_all (unknownInput L W) inputs \<Longrightarrow> inputs_loop L W inputs flow = Inr flow"
  by (induction inputs) (simp_all add: unknown_input_skipped)

lemma output_step_less_known:
  assumes "lessKnown W' W" and "output_step L W txid i out st = Inr s"
  shows "\<exists>s'. output_step L W' txid i out st' = Inr s'"
proof -
  from assms(1) have "noSecret (getOutputBlindingData W' txid i) \<or>
            getOutputBlindingData W' txid i = getOutputBlindingData W txid i"
    by (simp add: lessKnown_def)
  with assms(2) show ?thesis
    by (auto simp add: output_step_def noSecret_def split: option.splits promise.splits if_splits)
qed

lemma outputs_loop_less_known:
  assumes "lessKnown W' W"
  shows "outputs_loop L W txid i outputs st = Inr s \<Longrightarrow>
         \<exists>s'. outputs_loop L W' txid i outputs st' = Inr s'"
proof (induction outputs arbitrary: i st st' s)
  case Nil
  show ?case by simp
next
  case (Cons out rest)
  from Cons.prems obtain s1 where s1: "output_step L W txid i out st = Inr s1"
    and r: "outputs_loop L W txid (Suc i) rest s1 = Inr s"
    by (auto split: sum.splits)
  from output_step_less_known [OF assms s1]
  obtain s1' where s1': "output_step L W' txid i out st' = Inr s1'" by blast
  from Cons.IH [OF r] obtain s' where "outputs_loop L W' txid (Suc i) rest s1' = Inr s'"
    by blast
  with s1' show ?case by simp
qed

lemma input_step_less_known:
  assumes "lessKnown W' W" and "input_step L W input flow = Inr f"
  shows "\<exists>f'. input_step L W' input flow' = Inr f'"
proof -
  let ?t = "toHex (rev (hash input))"
  from assms(1) have b: "noSecret (getOutputBlindingData W' ?t (index input)) \<or>
            getOutputBlindingData W' ?t (index input) = getOutputBlindingData W ?t (index input)"
    and u: "getWitnessUtxo W' ?t (index input) = Resolved None \<or>
            getWitnessUtxo W' ?t (index input) = getWitnessUtxo W ?t (index input)"
    by (simp_all add: lessKnown_def)
  from u show ?thesis
  proof
    assume "getWitnessUtxo W' ?t (index input) = Resolved None"
    then show ?thesis by (simp add: input_step_def)
  next
    assume "getWitnessUtxo W' ?t (index input) = getWitnessUtxo W ?t (index input)"
    with assms(2) b show ?thesis
      by (auto simp add: input_step_def Let_def noSecret_def
            split: option.splits promise.splits if_splits)
  qed
qed

lemma inputs_loop_less_known:
  assumes "lessKnown W' W"
  shows "inputs_loop L W inputs flow = Inr f \<Longrightarrow> \<exists>f'. inputs_loop L W' inputs flow' = Inr f'"
proof (induction inputs arbitrary: flow flow' f)
  case Nil
  show ?case by simp
next
  case (Cons input rest)
  from Cons.prems obtain f1 where f1: "input_step L W input flow = Inr f1"
    and r: "inputs_loop L W rest f1 = Inr f"
    by (auto split: sum.splits)
  from input_step_less_known [OF assms f1]
  obtain f1' where f1': "input_step L W' input flow' = Inr f1'" by blast
  from Cons.IH [OF r] obtain f' where "inputs_loop L W' rest f1' = Inr f'" by blast
  with f1' show ?case by simp
qed

lemma flowPasses_less_known:
  assumes "lessKnown W' W" and "flowPasses L W tx = Inr st"
  shows "\<exists>st'. flowPasses L W' tx = Inr st'"
proof -
  from assms(2) obtain s f where
    o: "outputs_loop L W (getId tx) 0 (outs tx) (0, []) = Inr s"
    and i: "inputs_loop L W (ins tx) (snd s) = Inr f"
    by (auto simp add: flowPasses_def split: sum.splits)
  from outputs_loop_less_known [OF assms(1) o]
  obtain s' where o': "outputs_loop L W' (getId tx) 0 (outs tx) (0, []) = Inr s'" by blast
  from inputs_loop_less_known [OF assms(1) i]
  obtain f' where "inputs_loop L W' (ins tx) (snd s') = Inr f'" by blast
  with o' show ?thesis by (simp add: flowPasses_def)
qed

lemma enrich_success_any_flow:
  assumes "fst (enrich L A w details tid fee flow) = Inr r"
  shows "\<exists>r'. fst (enrich L A w details tid' fee' flow') = Inr r'"
  using assms
  by (auto simp add: enrich_def split: option.splits if_splits promise.splits prod.splits sum.splits lookup.splits)

lemma compute_less_known:
  assumes "lessKnown W' W" and "fst (computeTxDetailsExtended L A W w details) = Inr r"
  shows "\<exists>r'. fst (computeTxDetailsExtended L A W' w details) = Inr r'"
proof -
  from assms(2) obtain h tx st where
    h: "hex details = Some h" "h \<noteq> []" "Transaction_fromHex L h = Some tx"
    and p: "flowPasses L W tx = Inr st"
    and e: "fst (enrich L A w details (getId tx) (fst st) (snd st)) = Inr r"
    by (auto simp add: computeTxDetailsExtended_def split: option.splits if_splits sum.splits)
  from flowPasses_less_known [OF assms(1) p]
  obtain st' where p': "flowPasses L W' tx = Inr st'" by blast
  from enrich_success_any_flow [OF e]
  obtain r' where "fst (enrich L A w details (getId tx) (fst st') (snd st')) = Inr r'" by blast
  with h p' show ?thesis by (simp add: computeTxDetailsExtended_def)
qed

text \<open>
  C4. An absent lookup is a soft skip. A confidential output whose blinding-data lookup
  resolves without a secret leaves \<open>feeAmount\<close> and the flow unchanged; so does an input
  whose spent output is not in the witness-output lookup, or is confidential without a
  stored secret. When every output is a fee output or such a confidential output and every
  input is such an input, both passes complete with an empty flow and the fee of the fee
  output, and for an unconfirmed record \<open>computeTxDetailsExtended\<close> returns that result.
  No error comes from an absence: a call that returns with a wallet repository \<open>W\<close> also
  returns with any wallet repository that knows less than \<open>W\<close>.
\<close>

theorem absent_lookups_are_soft_skips:
  "(blindOutput L W txid i out \<longrightarrow> output_step L W txid i out st = Inr st) \<and>
   (unknownInput L W input \<longrightarrow> input_step L W input flow = Inr flow) \<and>
   (hex details = Some h \<and> h \<noteq> [] \<and> Transaction_fromHex L h = Some tx \<and>
    unknownOutputs L W (getId tx) 0 (outs tx) \<and> list_all (unknownInput L W) (ins tx) \<longrightarrow>
      flowPasses L W tx = Inr (feeOf L (outs tx) 0, []) \<and>
      computeTxDetailsExtended L A W w details =
        enrich L A w details (getId tx) (feeOf L (outs tx) 0) [] \<and>
      (\<not> heightKnown details \<longrightarrow>
         computeTxDetailsExtended L A W w details =
           (Inr (extended details (getId tx) [] (feeOf L (outs tx) 0) None), w))) \<and>
   (lessKnown W' W \<and> fst (computeTxDetailsExtended L A W w details) = Inr r \<longrightarrow>
      (\<exists>r'. fst (computeTxDetailsExtended L A W' w details) = Inr r'))"
proof (intro conjI impI)
  assume "blindOutput L W txid i out"
  then show "output_step L W txid i out st = Inr st" by (rule blind_output_skipped)
next
  assume "unknownInput L W input"
  then show "input_step L W input flow = Inr flow" by (rule unknown_input_skipped)
next
  assume "lessKnown W' W \<and> fst (computeTxDetailsExtended L A W w details) = Inr r"
  then show "\<exists>r'. fst (computeTxDetailsExtended L A W' w details) = Inr r'"
    using compute_less_known by blast
next
  assume a: "hex details = Some h \<and> h \<noteq> [] \<and> Transaction_fromHex L h = Some tx \<and>
    unknownOutputs L W (getId tx) 0 (outs tx) \<and> list_all (unknownInput L W) (ins tx)"
  then have o: "outputs_loop L W (getId tx) 0 (outs tx) (0, []) = Inr (feeOf L (outs tx) 0, [])"
    using unknown_outputs_loop [of L W "getId tx" 0 "outs tx" "(0, [])"] by simp
  from a have i: "inputs_loop L W (ins tx) [] = Inr []"
    using unknown_inputs_loop [of L W "ins tx" "[]"] by simp
  show p: "flowPasses L W tx = Inr (feeOf L (outs tx) 0, [])"
    by (simp add: flowPasses_def o i)
  show c: "computeTxDetailsExtended L A W w details =
        enrich L A w details (getId tx) (feeOf L (outs tx) 0) []"
    using a p compute_after_passes [of details h L tx W "feeOf L (outs tx) 0" "[]" A w] by simp
  assume "\<not> heightKnown details"
  then show "computeTxDetailsExtended L A W w details =
           (Inr (extended details (getId tx) [] (feeOf L (outs tx) 0) None), w)"
    unfolding c by (auto simp add: enrich_def heightKnown_def split: option.splits)
qed

theorem absent_lookups_witness:
  "blindOutput (testLib blindTx) emptyWallet ''3d'' 0 blindOut \<and>
   output_step (testLib blindTx) emptyWallet ''3d'' 0 blindOut (0, []) = Inr (0, []) \<and>
   unknownInput (testLib blindTx) emptyWallet spendCoin \<and>
   input_step (testLib blindTx) emptyWallet spendCoin [] = Inr [] \<and>
   computeTxDetailsExtended (testLib blindTx) appNoChain emptyWallet emptyWorld unconfirmed =
     (Inr (extended unconfirmed ''3d'' [] 5 None), emptyWorld) \<and>
   lessKnown emptyWallet testWallet \<and>
   fst (computeTxDetailsExtended (testLib selfTx) appNoChain testWallet emptyWorld unconfirmed) =
     Inr (extended unconfirmed ''1d'' [(''6f'', - 5)] 5 None) \<and>
   (\<exists>r'. fst (computeTxDetailsExtended (testLib selfTx) appNoChain emptyWallet emptyWorld
                 unconfirmed) = Inr r')"
proof -
  have b: "blindOutput (testLib blindTx) emptyWallet ''3d'' 0 blindOut"
    by code_simp
  have u: "unknownInput (testLib blindTx) emptyWallet spendCoin"
    by code_simp
  have hx: "hex unconfirmed = Some ''00''" "''00'' \<noteq> []"
    by (simp_all add: unconfirmed_def)
  have px: "Transaction_fromHex (testLib blindTx) ''00'' = Some blindTx"
    by (simp add: testLib_def)
  have outs_ok: "unknownOutputs (testLib blindTx) emptyWallet (getId blindTx) 0 (outs blindTx)"
    by code_simp
  have ins_ok: "list_all (unknownInput (testLib blindTx) emptyWallet) (ins blindTx)"
    by code_simp
  have nk: "\<not> heightKnown unconfirmed"
    by (simp add: heightKnown_def unconfirmed_def)
  have g: "getId blindTx = ''3d''" by (simp add: blindTx_def)
  have f: "feeOf (testLib blindTx) (outs blindTx) 0 = 5"
    by code_simp
  note t = absent_lookups_are_soft_skips
             [of "testLib blindTx" emptyWallet "''3d''" 0 blindOut "(0, [])" spendCoin "[]"
                 unconfirmed "''00''" blindTx appNoChain emptyWorld]
  have 1: "output_step (testLib blindTx) emptyWallet ''3d'' 0 blindOut (0, []) = Inr (0, [])"
    using t b by blast
  have 2: "input_step (testLib blindTx) emptyWallet spendCoin [] = Inr []"
    using t u by blast
  have 3: "computeTxDetailsExtended (testLib blindTx) appNoChain emptyWallet emptyWorld unconfirmed =
     (Inr (extended unconfirmed (getId blindTx) [] (feeOf (testLib blindTx) (outs blindTx) 0) None),
      emptyWorld)"
    using t hx px outs_ok ins_ok nk by blast
  have lk: "lessKnown emptyWallet testWallet"
    by (simp add: lessKnown_def emptyWallet_def testWallet_def noSecret_def)
  have ok: "fst (computeTxDetailsExtended (testLib selfTx) appNoChain testWallet emptyWorld
                   unconfirmed) = Inr (extended unconfirmed ''1d'' [(''6f'', - 5)] 5 None)"
    by code_simp
  have 4: "\<exists>r'. fst (computeTxDetailsExtended (testLib selfTx) appNoChain emptyWallet emptyWorld
                       unconfirmed) = Inr r'"
    using lk ok
      absent_lookups_are_soft_skips
        [where W' = emptyWallet and W = testWallet and L = "testLib selfTx" and A = appNoChain
           and w = emptyWorld and details = unconfirmed
           and r = "extended unconfirmed ''1d'' [(''6f'', - 5)] 5 None"]
    by blast
  show ?thesis
    using b u 1 2 3 lk ok 4 by (simp add: g f)
qed

end
